theory Spec2Isabelle
  imports Main "HOL-Library.Word" "HOL-Library.Sublist"
begin

section \<open>JavaScript strings\<close>

text \<open>
  A JavaScript string is a sequence of 16-bit code units. A literal of the source is
  written \<open>lit ''...''\<close>. \<open>trim\<close> is \<^verbatim>\<open>String.prototype.trim\<close>: it strips the
  white space and line terminator code units of ECMAScript from both ends.
\<close>

type_synonym jschar = "16 word"
type_synonym jsstring = "jschar list"

definition lit :: "string \<Rightarrow> jsstring" where
  "lit cs = map (\<lambda>c. of_nat (of_char c)) cs"

definition is_white_space :: "jschar \<Rightarrow> bool" where
  "is_white_space c \<longleftrightarrow>
     c \<in> {0x0009, 0x000A, 0x000B, 0x000C, 0x000D, 0x0020, 0x00A0, 0x1680,
          0x2028, 0x2029, 0x202F, 0x205F, 0x3000, 0xFEFF}
     \<or> (0x2000 \<le> c \<and> c \<le> 0x200A)"

definition trim :: "jsstring \<Rightarrow> jsstring" where
  "trim s = rev (dropWhile is_white_space (rev (dropWhile is_white_space s)))"

text \<open>
  A value that may be \<^verbatim>\<open>undefined\<close> is an option. \<open>falsy\<close> is the test \<^verbatim>\<open>!v\<close> on
  such a string, \<open>str\<close> its rendering inside a template literal, and \<open>or_else\<close> is
  \<^verbatim>\<open>v || d\<close>.
\<close>

definition falsy :: "jsstring option \<Rightarrow> bool" where
  "falsy v = (case v of None \<Rightarrow> True | Some x \<Rightarrow> x = [])"

definition str :: "jsstring option \<Rightarrow> jsstring" where
  "str v = (case v of None \<Rightarrow> lit ''undefined'' | Some x \<Rightarrow> x)"

definition or_else :: "jsstring option \<Rightarrow> jsstring \<Rightarrow> jsstring" where
  "or_else v d = (if falsy v then d else str v)"

section \<open>Exceptions\<close>

text \<open>
  A thrown value or a rejected promise is a value of \<open>exception\<close>; \<open>render\<close> is what
  a template literal makes of it (\<^verbatim>\<open>Error.prototype.toString\<close>).
\<close>

datatype exception = Error jsstring | TypeError jsstring

fun render :: "exception \<Rightarrow> jsstring" where
  "render (Error m) = (if m = [] then lit ''Error'' else lit ''Error: '' @ m)"
| "render (TypeError m) = (if m = [] then lit ''TypeError'' else lit ''TypeError: '' @ m)"

text \<open>
  What a call gives its caller at once: it throws, or it returns. What an \<^verbatim>\<open>async\<close>
  function returns is a promise, which is rejected with the exception its body
  throws or fulfilled with the value its body returns; so a call of an \<^verbatim>\<open>async\<close>
  function never throws.
\<close>

datatype 'a promise = Rejected exception | Fulfilled 'a

datatype 'a outcome = Thrown exception | Returned 'a

definition async_call :: "exception + 'a \<Rightarrow> 'a promise outcome" where
  "async_call r = Returned (case r of Inl e \<Rightarrow> Rejected e | Inr v \<Rightarrow> Fulfilled v)"

definition throws :: "'a outcome \<Rightarrow> bool" where
  "throws r = (case r of Thrown e \<Rightarrow> True | Returned v \<Rightarrow> False)"

section \<open>The Actor type\<close>

text \<open>
  Modelled from the spec: the \<^verbatim>\<open>Actor\<close> class of \<^verbatim>\<open>@fabric/core/types/actor\<close>, which
  is not among the sources. The spec describes an actor as an identity derived
  deterministically from a public key or an external user id, with the attributes \<open>id\<close>
  (a derived hash) and \<open>data\<close> (an opaque payload), and calls the derivation
  collision-free. The hash is therefore kept symbolic: the id of an actor is the
  free constructor \<open>Digest\<close> applied to the content the actor was made from.
\<close>

datatype actor_content = IdContent jsstring | PubkeyContent jsstring

datatype digest = Digest actor_content

datatype actor = Actor actor_content

fun actor_id :: "actor \<Rightarrow> digest" where
  "actor_id (Actor c) = Digest c"

fun actor_data :: "actor \<Rightarrow> actor_content" where
  "actor_data (Actor c) = c"

section \<open>The external Matrix client\<close>

text \<open>
  The events, rooms and members that the client library hands to the adapter, reduced
  to the fields the adapter reads.
\<close>

record matrix_event =
  event_id :: jsstring
  event_type :: jsstring
  sender :: jsstring
  room_id :: jsstring
  body :: "jsstring option"

definition getId :: "matrix_event \<Rightarrow> jsstring" where
  "getId ev = event_id ev"

definition getType :: "matrix_event \<Rightarrow> jsstring" where
  "getType ev = event_type ev"

record room =
  roomId :: jsstring
  timeline :: "matrix_event list"

record room_member =
  membership :: jsstring
  userId :: jsstring
  member_roomId :: jsstring

text \<open>
  The requests the adapter makes of the client, and the client's answers. An answer is
  \<open>Inl\<close> of the exception when the request throws or its promise rejects. A
  \<open>response\<close> is reduced to its \<^verbatim>\<open>event_id\<close>; \<open>RelatesTo rel_type event_id key\<close>
  is the content \<^verbatim>\<open>{ 'm.relates_to': { rel_type, event_id, key } }\<close>.
\<close>

datatype response = Response jsstring

fun response_event_id :: "response \<Rightarrow> jsstring" where
  "response_event_id (Response i) = i"

datatype event_content = RelatesTo jsstring jsstring jsstring

datatype request =
    StartClient nat
  | JoinRoom jsstring
  | SendEvent jsstring jsstring event_content
  | RedactEvent jsstring jsstring
  | RegisterRequest jsstring jsstring
  | Login jsstring jsstring
  | IsUsernameAvailable jsstring

record matrix_client =
  getRooms :: "room list"
  startClient :: "nat \<Rightarrow> exception + unit"
  joinRoom :: "jsstring \<Rightarrow> exception + unit"
  sendEvent :: "jsstring \<Rightarrow> jsstring \<Rightarrow> event_content \<Rightarrow> exception + response"
  registerRequest :: "jsstring \<Rightarrow> jsstring \<Rightarrow> exception + response"
  login :: "jsstring \<Rightarrow> jsstring \<Rightarrow> exception + response"
  isUsernameAvailable :: "jsstring \<Rightarrow> exception + bool"

section \<open>The adapter\<close>

record matrix_settings =
  alias_name :: jsstring
  autojoin :: bool
  handle :: jsstring
  name :: jsstring
  path :: jsstring
  homeserver :: jsstring
  coordinator :: jsstring
  sync_limit :: nat
  token :: "jsstring option"
  connect :: bool

definition default_settings :: matrix_settings where
  "default_settings = \<lparr>
     alias_name = lit ''FABRIC'',
     autojoin = True,
     handle = lit ''@fabric:fabric.pub'',
     name = lit ''@fabric/matrix'',
     path = lit ''./stores/matrix'',
     homeserver = lit ''https://fabric.pub'',
     coordinator = lit ''!pPjIUAOkwmgXeICrzT:fabric.pub'',
     sync_limit = 10000,
     token = None,
     connect = True \<rparr>"

text \<open>The object handed to \<^verbatim>\<open>_registerActor\<close>, and what \<^verbatim>\<open>_state.actors\<close> holds.\<close>

record registrant =
  pubkey :: "jsstring option"
  password :: "jsstring option"

datatype actor_entry = ActorData actor_content | Memory registrant

text \<open>
  \<^verbatim>\<open>this._state\<close>. An entry of \<open>users\<close> is the object \<^verbatim>\<open>{ actor: id }\<close>, kept as
  the id. \<open>channels\<close>, \<open>messages\<close> and \<open>validators\<close> are created empty and never
  written.
\<close>

record local_state =
  status :: jsstring
  actors :: "digest \<rightharpoonup> actor_entry"
  channels :: "jsstring \<rightharpoonup> unit"
  messages :: "jsstring \<rightharpoonup> unit"
  users :: "jsstring \<rightharpoonup> digest"
  validators :: "jsstring \<rightharpoonup> unit"

text \<open>
  What the adapter emits. \<open>fabric_message\<close> is \<^verbatim>\<open>Message.fromVector([type, data])\<close>;
  an \<open>activity\<close> is the object emitted under the name \<^verbatim>\<open>activity\<close>.
\<close>

datatype fabric_message =
    OracleBoolean bool
  | MatrixClientSync jsstring jsstring
  | GenericError jsstring

record activity_object =
  object_id :: "jsstring option"
  content :: "jsstring option"

record activity =
  actor :: digest
  object :: activity_object
  target :: jsstring

datatype event_name =
  EvLog | EvError | EvMessage | EvWarning | EvActivity | EvReady | EvPrepared | EvActor

datatype payload =
    NoPayload
  | Text jsstring
  | Vector fabric_message
  | ActivityPayload activity
  | Registration "response option"
  | ActorId digest

text \<open>
  Everything the adapter does that is visible outside it goes to one trace, in order.
  Listeners run synchronously inside \<^verbatim>\<open>emit\<close>, so what a listener can read of the
  adapter is \<^verbatim>\<open>_state\<close> as it is at the call: an \<open>Emit\<close> keeps that state beside
  the event.
\<close>

datatype effect =
    Emit event_name payload local_state
  | Request request
  | ConsoleError jsstring exception
  | ServiceLog digest actor_content
  | ProcessExit

text \<open>
  The adapter: its settings, its client, \<^verbatim>\<open>_state\<close>, the number of listeners it has
  registered under each name (on the client and on itself), the trace, and whether
  \<^verbatim>\<open>process.exit\<close> has been called. A method takes the adapter and returns it as
  the method leaves it, with the value returned or the exception thrown where there
  is one. An \<^verbatim>\<open>async\<close> method is run from its first statement to its last in one
  step: what it awaits is an answer of the client, which the client record gives, or
  another method of the adapter. Its result is what awaiting it gives: \<open>Inl\<close> is the
  exception its promise is rejected with, \<open>Inr\<close> the value the promise is fulfilled
  with.
\<close>

record matrix =
  settings :: matrix_settings
  client :: matrix_client
  state :: local_state
  sync_once_listeners :: nat
  activity_listeners :: nat
  prepared_listeners :: nat
  timeline_listeners :: nat
  membership_listeners :: nat
  trace :: "effect list"
  exited :: bool

text \<open>
  The constructor. \<open>st\<close> is the settings once the defaults have been merged with
  what the caller gives (\<open>default_settings\<close> when the caller gives nothing), and \<open>cl\<close>
  is the client that \<^verbatim>\<open>matrix.createClient\<close> returns.
\<close>

definition Matrix :: "matrix_settings \<Rightarrow> matrix_client \<Rightarrow> matrix" where
  "Matrix st cl = \<lparr>
     settings = st,
     client = cl,
     state = \<lparr> status = lit ''READY'', actors = Map.empty, channels = Map.empty,
               messages = Map.empty, users = Map.empty, validators = Map.empty \<rparr>,
     sync_once_listeners = 0,
     activity_listeners = 0,
     prepared_listeners = 0,
     timeline_listeners = 0,
     membership_listeners = 0,
     trace = [],
     exited = False \<rparr>"

text \<open>
  Modelled from the spec: \<^verbatim>\<open>emit\<close> and \<^verbatim>\<open>on\<close>, which the adapter inherits from the
  \<^verbatim>\<open>Service\<close> class of \<^verbatim>\<open>@fabric/core\<close>, not among the sources. The spec has a local
  event stream of named events, each with a payload, and callbacks that fire one at a
  time, first registered first served. So \<open>emit\<close> puts the event on the trace; where
  the adapter has listeners of its own that do something under a name, they run after
  that, in turn (\<open>run_listeners\<close> and \<open>emit_prepared\<close> below).
\<close>

definition emit :: "event_name \<Rightarrow> payload \<Rightarrow> matrix \<Rightarrow> matrix" where
  "emit n p s = s\<lparr>trace := trace s @ [Emit n p (state s)]\<rparr>"

definition request :: "request \<Rightarrow> matrix \<Rightarrow> matrix" where
  "request r s = s\<lparr>trace := trace s @ [Request r]\<rparr>"

subsection \<open>Status\<close>

definition get_status :: "matrix \<Rightarrow> jsstring" where
  "get_status s = status (state s)"

text \<open>
  The setter: a \<^verbatim>\<open>switch\<close> with the one case \<^verbatim>\<open>'READY'\<close>; every other value takes
  the default branch, which returns \<^verbatim>\<open>false\<close> and stores nothing. An assignment
  \<^verbatim>\<open>this.status = v\<close> runs the setter and drops what it returns.
\<close>

definition set_status :: "jsstring \<Rightarrow> matrix \<Rightarrow> matrix \<times> bool" where
  "set_status v s =
     (if v = lit ''READY'' then (s\<lparr>state := (state s)\<lparr>status := v\<rparr>\<rparr>, True)
      else (s, False))"

definition assign_status :: "jsstring \<Rightarrow> matrix \<Rightarrow> matrix" where
  "assign_status v s = fst (set_status v s)"

subsection \<open>Start and stop\<close>

text \<open>
  The listener that \<^verbatim>\<open>start\<close> registers for \<^verbatim>\<open>RoomMember.membership\<close>. The join
  request is not awaited.
\<close>

definition handleMembership :: "room_member \<Rightarrow> matrix \<Rightarrow> matrix" where
  "handleMembership m s =
     (if autojoin (settings s) \<and> membership m = lit ''invite''
         \<and> userId m = handle (settings s)
      then request (JoinRoom (member_roomId m)) s
      else s)"

text \<open>
  \<^verbatim>\<open>start\<close>. The object \<^verbatim>\<open>user\<close> it builds is not used (the call that took it is
  commented out). An exception of \<^verbatim>\<open>startClient\<close> or \<^verbatim>\<open>joinRoom\<close> leaves \<^verbatim>\<open>start\<close>
  at that point.
\<close>

definition start :: "matrix \<Rightarrow> matrix \<times> (exception + unit)" where
  "start s =
     (let s1 = assign_status (lit ''STARTING'') s;
          s2 = emit EvLog (Text (lit ''[SERVICES:MATRIX] Starting...'')) s1;
          s3 = s2\<lparr>sync_once_listeners := Suc (sync_once_listeners s2)\<rparr>;
          s4 = s3\<lparr>activity_listeners := Suc (activity_listeners s3)\<rparr>;
          s5 = s4\<lparr>prepared_listeners := Suc (prepared_listeners s4)\<rparr>;
          finish = (\<lambda>t.
            let t1 = t\<lparr>membership_listeners := Suc (membership_listeners t)\<rparr>;
                t2 = assign_status (lit ''STARTED'') t1;
                t3 = emit EvLog (Text (lit ''[SERVICES:MATRIX] Started!'')) t2
            in (t3, Inr ()))
      in if connect (settings s5) then
           (let s6 = request (StartClient (sync_limit (settings s5))) s5
            in case startClient (client s6) (sync_limit (settings s6)) of
                 Inl e \<Rightarrow> (s6, Inl e)
               | Inr _ \<Rightarrow>
                   (let s7 = request (JoinRoom (coordinator (settings s6))) s6
                    in case joinRoom (client s7) (coordinator (settings s7)) of
                         Inl e \<Rightarrow> (s7, Inl e)
                       | Inr _ \<Rightarrow> finish s7))
         else finish s5)"

definition stop :: "matrix \<Rightarrow> matrix \<times> (exception + unit)" where
  "stop s =
     (let s1 = assign_status (lit ''STOPPING'') s;
          s2 = assign_status (lit ''STOPPED'') s1
      in (s2, Inr ()))"

subsection \<open>The actor registry\<close>

definition ensureUser :: "jsstring \<Rightarrow> matrix \<Rightarrow> actor \<times> matrix" where
  "ensureUser uid s =
     (let a = Actor (IdContent uid);
          st1 = (state s)\<lparr>actors := (actors (state s))(actor_id a \<mapsto> ActorData (actor_data a))\<rparr>;
          st2 = st1\<lparr>users := (users st1)(uid \<mapsto> actor_id a)\<rparr>
      in (a, s\<lparr>state := st2\<rparr>))"

subsection \<open>Relaying what the client reports\<close>

text \<open>
  \<^verbatim>\<open>_publishState\<close> has a body of comments only, and \<^verbatim>\<open>_syncState\<close> awaits it.
  \<^verbatim>\<open>_handleMatrixActivity\<close>, which \<^verbatim>\<open>start\<close> registers for \<^verbatim>\<open>activity\<close>, has an
  empty body as well.
\<close>

definition publishState :: "local_state \<Rightarrow> matrix \<Rightarrow> matrix" where
  "publishState st s = s"

definition syncState :: "matrix \<Rightarrow> matrix" where
  "syncState s = publishState (state s) s"

definition handleMatrixActivity :: "activity \<Rightarrow> matrix \<Rightarrow> matrix" where
  "handleMatrixActivity a s = s"

definition handleMatrixMessage :: "matrix_event \<Rightarrow> matrix \<Rightarrow> matrix" where
  "handleMatrixMessage msg s =
     (let (a, s1) = ensureUser (sender msg) s
      in if getType msg = lit ''m.room.message'' then
           emit EvActivity (ActivityPayload \<lparr>
               actor = actor_id a,
               object = \<lparr> object_id = None, content = body msg \<rparr>,
               target = lit ''/rooms/'' @ room_id msg \<rparr>) s1
         else
           emit EvWarning (Text (lit ''Unhandled Matrix message type: '' @ getType msg)) s1)"

definition handleRoomTimeline :: "matrix_event \<Rightarrow> room \<Rightarrow> bool \<Rightarrow> matrix \<Rightarrow> matrix" where
  "handleRoomTimeline ev rm toStartOfTimeline s =
     (let (a, s1) = ensureUser (sender ev) s
      in if getType ev = lit ''m.room.message'' then
           (let s2 = syncState s1
            in emit EvActivity (ActivityPayload \<lparr>
                 actor = actor_id a,
                 object = \<lparr> object_id = Some (event_id ev), content = body ev \<rparr>,
                 target = lit ''/rooms/'' @ roomId rm \<rparr>) s2)
         else
           emit EvWarning (Text (lit ''Unhandled Matrix message type: '' @ getType ev)) s1)"

text \<open>
  Running the \<open>n\<close> listeners registered under one name, each to its end, one after the
  other. Nothing runs once \<^verbatim>\<open>process.exit\<close> has been called. Where a listener is
  \<^verbatim>\<open>async\<close> and awaits before it emits (\<^verbatim>\<open>_handlePreparedEvent\<close>, and
  \<^verbatim>\<open>_handleRoomTimeline\<close> on a message), the code runs every listener up to its
  await first and the emissions after that; with one listener and one event that is
  the same run, and the properties below are stated for one run of one listener.
\<close>

fun run_listeners :: "nat \<Rightarrow> (matrix \<Rightarrow> matrix) \<Rightarrow> matrix \<Rightarrow> matrix" where
  "run_listeners 0 h s = s"
| "run_listeners (Suc n) h s = (if exited s then s else run_listeners n h (h s))"

definition handlePreparedEvent :: "jsstring \<Rightarrow> matrix \<Rightarrow> matrix" where
  "handlePreparedEvent st s =
     (let s1 = s\<lparr>timeline_listeners := Suc (timeline_listeners s)\<rparr>;
          s2 = syncState s1
      in emit EvReady NoPayload s2)"

text \<open>
  \<^verbatim>\<open>this.emit('prepared', status)\<close>: the adapter's own listeners for \<^verbatim>\<open>prepared\<close> are
  the \<^verbatim>\<open>_handlePreparedEvent\<close> that each \<^verbatim>\<open>start\<close> has registered.
\<close>

definition emit_prepared :: "jsstring \<Rightarrow> matrix \<Rightarrow> matrix" where
  "emit_prepared st s =
     run_listeners (prepared_listeners s) (handlePreparedEvent st) (emit EvPrepared (Text st) s)"

text \<open>
  \<^verbatim>\<open>_handleClientSync\<close>. \<open>now\<close> is \<^verbatim>\<open>(new Date()).toISOString()\<close>; the arguments
  \<^verbatim>\<open>prevState\<close> and \<^verbatim>\<open>res\<close> are not read.
\<close>

definition handleClientSync :: "jsstring \<Rightarrow> jsstring \<Rightarrow> matrix \<Rightarrow> matrix" where
  "handleClientSync now st s =
     (if trim st = lit ''PREPARED'' then
        (let s1 = emit EvMessage (Vector (MatrixClientSync now st)) s
         in emit_prepared st s1)
      else
        (let s1 = emit EvError
                    (Vector (GenericError (lit ''Unhandled sync event state: '' @ st))) s
         in s1\<lparr>trace := trace s1 @ [ProcessExit], exited := True\<rparr>))"

text \<open>
  The client delivering an event to the listeners the adapter has registered with it:
  \<^verbatim>\<open>once('sync')\<close> listeners are removed as they fire.
\<close>

definition deliver_sync :: "jsstring \<Rightarrow> jsstring \<Rightarrow> matrix \<Rightarrow> matrix" where
  "deliver_sync now st s =
     run_listeners (sync_once_listeners s) (handleClientSync now st)
       (s\<lparr>sync_once_listeners := 0\<rparr>)"

definition deliver_timeline :: "matrix_event \<Rightarrow> room \<Rightarrow> bool \<Rightarrow> matrix \<Rightarrow> matrix" where
  "deliver_timeline ev rm b s =
     run_listeners (timeline_listeners s) (handleRoomTimeline ev rm b) s"

definition deliver_membership :: "room_member \<Rightarrow> matrix \<Rightarrow> matrix" where
  "deliver_membership m s = run_listeners (membership_listeners s) (handleMembership m) s"

subsection \<open>Finding an event, reacting, redacting\<close>

text \<open>
  The two loops of \<^verbatim>\<open>_getEvent\<close> count an index down from the last entry to the
  first. The counter here is the index plus one, the number of entries not yet
  looked at, so that the entry looked at is \<open>xs ! j\<close> with \<open>j\<close> below the length.
\<close>

fun scan_timeline :: "matrix_event list \<Rightarrow> nat \<Rightarrow> jsstring \<Rightarrow> matrix_event option" where
  "scan_timeline tml 0 eventID = None"
| "scan_timeline tml (Suc j) eventID =
     (if getId (tml ! j) = eventID then Some (tml ! j) else scan_timeline tml j eventID)"

fun scan_rooms :: "room list \<Rightarrow> nat \<Rightarrow> jsstring \<Rightarrow> matrix_event option" where
  "scan_rooms rooms 0 eventID = None"
| "scan_rooms rooms (Suc i) eventID =
     (case scan_timeline (timeline (rooms ! i)) (length (timeline (rooms ! i))) eventID of
        Some e \<Rightarrow> Some e
      | None \<Rightarrow> scan_rooms rooms i eventID)"

definition getEvent :: "matrix \<Rightarrow> jsstring \<Rightarrow> matrix_event option" where
  "getEvent s eventID =
     scan_rooms (getRooms (client s)) (length (getRooms (client s))) eventID"

text \<open>
  Reading \<^verbatim>\<open>event.event\<close> when \<^verbatim>\<open>event\<close> is \<^verbatim>\<open>null\<close> throws a \<^verbatim>\<open>TypeError\<close>.
\<close>

definition null_dereference :: exception where
  "null_dereference = TypeError (lit ''Cannot read properties of null'')"

definition react :: "jsstring \<Rightarrow> jsstring \<Rightarrow> matrix \<Rightarrow> matrix \<times> (exception + jsstring)" where
  "react eventID emoji s =
     (case getEvent s eventID of
        None \<Rightarrow> (s, Inl null_dereference)
      | Some event \<Rightarrow>
          (let reactionContent = RelatesTo (lit ''m.annotation'') eventID emoji;
               s1 = request (SendEvent (room_id event) (lit ''m.reaction'') reactionContent) s
           in case sendEvent (client s1) (room_id event) (lit ''m.reaction'') reactionContent of
                Inl e \<Rightarrow> (s1, Inl e)
              | Inr result \<Rightarrow> (s1, Inr (response_event_id result))))"

definition redact :: "jsstring \<Rightarrow> matrix \<Rightarrow> matrix \<times> (exception + unit)" where
  "redact eventID s =
     (case getEvent s eventID of
        None \<Rightarrow> (s, Inl null_dereference)
      | Some event \<Rightarrow> (request (RedactEvent (room_id event) eventID) s, Inr ()))"

subsection \<open>Registration and login\<close>

definition adapter_login ::
  "jsstring \<Rightarrow> jsstring \<Rightarrow> matrix \<Rightarrow> matrix \<times> (exception + response)" where
  "adapter_login username pw s = (request (Login username pw) s, login (client s) username pw)"

definition register ::
  "jsstring option \<Rightarrow> jsstring option \<Rightarrow> matrix \<Rightarrow> matrix \<times> (exception + response option)" where
  "register username pw s =
     (if falsy username then (s, Inl (Error (lit ''Must provide username.'')))
      else if falsy pw then (s, Inl (Error (lit ''Must provide password.'')))
      else
        (let s1 = emit EvLog
                    (Text (lit ''Trying registration: '' @ str username @ lit '':'' @ str pw)) s;
             s2 = request (RegisterRequest (str username) (str pw)) s1
         in case registerRequest (client s2) (str username) (str pw) of
              Inl e \<Rightarrow> (s2\<lparr>trace := trace s2 @ [ConsoleError (lit ''no reg:'') e]\<rparr>, Inr None)
            | Inr result \<Rightarrow> (s2, Inr (Some result))))"

text \<open>
  \<^verbatim>\<open>register\<close> is declared \<^verbatim>\<open>async\<close>. \<open>register\<close> above is its body, and what
  \<^verbatim>\<open>await this.register(...)\<close> gives inside \<^verbatim>\<open>_registerActor\<close>; \<open>register_call\<close>
  is what a caller has when the call returns.
\<close>

definition register_call ::
  "jsstring option \<Rightarrow> jsstring option \<Rightarrow> matrix
     \<Rightarrow> matrix \<times> (response option) promise outcome" where
  "register_call username pw s =
     (fst (register username pw s), async_call (snd (register username pw s)))"

text \<open>
  \<^verbatim>\<open>_checkUsernameAvailable\<close> resolves to \<^verbatim>\<open>false\<close> when the client's promise
  rejects and to \<^verbatim>\<open>true\<close> when it fulfils, whatever the value.
\<close>

definition checkUsernameAvailable :: "jsstring \<Rightarrow> matrix \<Rightarrow> matrix \<times> bool" where
  "checkUsernameAvailable username s =
     (let s1 = emit EvLog (Text (lit ''Checking username: '' @ username)) s;
          s2 = request (IsUsernameAvailable username) s1
      in (s2, case isUsernameAvailable (client s2) username of
                Inl e \<Rightarrow> False
              | Inr r \<Rightarrow> True))"

text \<open>
  The connection flow of \<^verbatim>\<open>_registerActor\<close> is four \<^verbatim>\<open>try\<close> blocks in a row, each
  with a \<^verbatim>\<open>catch\<close> that emits an \<^verbatim>\<open>error\<close> and goes on: the availability check,
  the registration (entered when the username is available), the login, and the join
  of the coordinator room. The model has no exception that the first block could
  catch.
\<close>

definition try_availability :: "jsstring \<Rightarrow> matrix \<Rightarrow> matrix \<times> bool" where
  "try_availability username s =
     (let s1 = emit EvLog (Text (lit ''Checking availability: '' @ username)) s;
          (s2, available) = checkUsernameAvailable username s1
      in (emit EvMessage (Vector (OracleBoolean available)) s2, available))"

definition try_registration :: "jsstring \<Rightarrow> jsstring \<Rightarrow> matrix \<Rightarrow> matrix" where
  "try_registration username pw s =
     (let s1 = emit EvLog (Text (lit ''Trying registration: '' @ username)) s
      in case register (Some username) (Some pw) s1 of
           (s2, Inl e) \<Rightarrow>
             emit EvError (Text (lit ''Could not register with coordinator: '' @ render e)) s2
         | (s2, Inr registration) \<Rightarrow> emit EvLog (Registration registration) s2)"

definition try_login :: "jsstring \<Rightarrow> jsstring \<Rightarrow> matrix \<Rightarrow> matrix" where
  "try_login username pw s =
     (let s1 = emit EvLog (Text (lit ''Trying login: '' @ username)) s
      in case adapter_login username pw s1 of
           (s2, Inl e) \<Rightarrow>
             emit EvError (Text (lit ''Could not authenticate with coordinator: '' @ render e)) s2
         | (s2, Inr r) \<Rightarrow> s2)"

definition try_join :: "matrix \<Rightarrow> matrix" where
  "try_join s =
     (let s1 = emit EvLog (Text (lit ''Trying join room: '' @ coordinator (settings s))) s;
          s2 = request (JoinRoom (coordinator (settings s1))) s1
      in case joinRoom (client s2) (coordinator (settings s2)) of
           Inl e \<Rightarrow> emit EvError (Text (lit ''Could not join coordinator: '' @ render e)) s2
         | Inr u \<Rightarrow> s2)"

text \<open>
  \<^verbatim>\<open>_registerActor\<close>. \<open>hashpass\<close> is the double \<^verbatim>\<open>Hash256\<close> digest of the adapter's
  private key, computed by \<^verbatim>\<open>@fabric/core\<close>; it stands in for a missing password.
  \<open>memory\<close> is the copy of the object without its password.
\<close>

definition field_pubkey_required :: jsstring where
  "field_pubkey_required = lit ''Field '' @ [0x22] @ lit ''pubkey'' @ [0x22] @ lit '' is required.''"

definition registerActor ::
  "jsstring \<Rightarrow> registrant \<Rightarrow> matrix \<Rightarrow> matrix \<times> (exception + actor_content)" where
  "registerActor hashpass obj s =
     (if falsy (pubkey obj) then (s, Inl (Error field_pubkey_required))
      else
        (let a = Actor (PubkeyContent (str (pubkey obj)));
             memory = (if falsy (password obj) then obj else obj\<lparr>password := None\<rparr>);
             s1 = s\<lparr>state := (state s)\<lparr>actors := (actors (state s))(actor_id a \<mapsto> Memory memory)\<rparr>\<rparr>;
             s5 =
               (if connect (settings s1) then
                  (let username = str (pubkey obj);
                       pw = or_else (password obj) hashpass;
                       (s2, available) = try_availability username s1;
                       s3 = (if available then try_registration username pw s2 else s2);
                       s4 = try_login username pw s3
                   in try_join s4)
                else s1);
             s6 = s5\<lparr>trace := trace s5 @ [ServiceLog (actor_id a) (actor_data a)]\<rparr>;
             s7 = emit EvActor (ActorId (actor_id a)) s6
         in (s7, Inr (actor_data a))))"

section \<open>What a listener for \<^verbatim>\<open>log\<close> receives\<close>

fun log_payloads :: "effect list \<Rightarrow> payload list" where
  "log_payloads [] = []"
| "log_payloads (Emit n p st # es) = (if n = EvLog then p # log_payloads es else log_payloads es)"
| "log_payloads (e # es) = log_payloads es"

section \<open>Sample inputs\<close>

text \<open>
  A client with no rooms that accepts every request; one that knows two rooms, the
  later of which repeats an event id of the earlier; one that refuses registrations;
  one that refuses every join.
\<close>

definition quiet_client :: matrix_client where
  "quiet_client = \<lparr>
     getRooms = [],
     startClient = (\<lambda>n. Inr ()),
     joinRoom = (\<lambda>r. Inr ()),
     sendEvent = (\<lambda>r t c. Inr (Response (lit ''$sent''))),
     registerRequest = (\<lambda>u p. Inr (Response (lit ''registered''))),
     login = (\<lambda>u p. Inr (Response (lit ''logged in''))),
     isUsernameAvailable = (\<lambda>u. Inr True) \<rparr>"

definition hello_event :: matrix_event where
  "hello_event = \<lparr>
     event_id = lit ''$e1'',
     event_type = lit ''m.room.message'',
     sender = lit ''@alice:fabric.pub'',
     room_id = lit ''!lobby:fabric.pub'',
     body = Some (lit ''hello'') \<rparr>"

definition reaction_event :: matrix_event where
  "reaction_event = \<lparr>
     event_id = lit ''$e2'',
     event_type = lit ''m.reaction'',
     sender = lit ''@bob:fabric.pub'',
     room_id = lit ''!lobby:fabric.pub'',
     body = None \<rparr>"

definition echo_event :: matrix_event where
  "echo_event = \<lparr>
     event_id = lit ''$e1'',
     event_type = lit ''m.room.message'',
     sender = lit ''@bob:fabric.pub'',
     room_id = lit ''!lounge:fabric.pub'',
     body = Some (lit ''echo'') \<rparr>"

definition lobby :: room where
  "lobby = \<lparr> roomId = lit ''!lobby:fabric.pub'', timeline = [hello_event, reaction_event] \<rparr>"

definition lounge :: room where
  "lounge = \<lparr> roomId = lit ''!lounge:fabric.pub'', timeline = [echo_event] \<rparr>"

definition busy_client :: matrix_client where
  "busy_client = quiet_client\<lparr>getRooms := [lobby, lounge]\<rparr>"

definition refusing_client :: matrix_client where
  "refusing_client =
     quiet_client\<lparr>registerRequest := (\<lambda>u p. Inl (Error (lit ''M_USER_IN_USE'')))\<rparr>"


definition invite :: room_member where
  "invite = \<lparr>
     membership = lit ''invite'',
     userId = lit ''@fabric:fabric.pub'',
     member_roomId = lit ''!lounge:fabric.pub'' \<rparr>"

definition fresh :: matrix where
  "fresh = Matrix default_settings quiet_client"

definition started :: matrix where
  "started = fst (start fresh)"

definition ready :: matrix where
  "ready = deliver_sync (lit ''2026-01-01T00:00:00.000Z'') (lit ''PREPARED'') started"

definition busy :: matrix where
  "busy = Matrix default_settings busy_client"

definition stubborn :: matrix where
  "stubborn = Matrix default_settings refusing_client"

definition manual :: matrix where
  "manual = Matrix (default_settings\<lparr>autojoin := False\<rparr>) quiet_client"

definition nameless :: registrant where
  "nameless = \<lparr> pubkey = None, password = Some (lit ''hunter2'') \<rparr>"

section \<open>Frame lemmas\<close>

lemma trace_emit: "trace (emit n p s) = trace s @ [Emit n p (state s)]"
  by (simp add: emit_def)

lemma state_emit: "state (emit n p s) = state s"
  by (simp add: emit_def)



lemma trace_request: "trace (request r s) = trace s @ [Request r]"
  by (simp add: request_def)

section \<open>Status lifecycle\<close>

lemma assign_status_not_READY:
  "v \<noteq> lit ''READY'' \<Longrightarrow> assign_status v s = s"
  by (simp add: assign_status_def set_status_def)

lemma assign_status_ignored:
  "assign_status (lit ''STARTING'') s = s"
  "assign_status (lit ''STARTED'') s = s"
  "assign_status (lit ''STOPPING'') s = s"
  "assign_status (lit ''STOPPED'') s = s"
  by (simp_all add: assign_status_not_READY lit_def)

lemma start_frame:
  "exited (fst (start s)) = exited s"
  "settings (fst (start s)) = settings s"
  "client (fst (start s)) = client s"
  "state (fst (start s)) = state s"
  "prepared_listeners (fst (start s)) = Suc (prepared_listeners s)"
  "sync_once_listeners (fst (start s)) = Suc (sync_once_listeners s)"
  "timeline_listeners (fst (start s)) = timeline_listeners s"
  by (simp_all add: start_def Let_def assign_status_ignored emit_def request_def
      split: sum.splits)

lemma start_membership_listeners:
  "snd (start s) = Inr () \<Longrightarrow>
   membership_listeners (fst (start s)) = Suc (membership_listeners s)"
  by (simp add: start_def Let_def assign_status_ignored emit_def request_def
      split: sum.splits if_splits)

lemma stop_ignored: "fst (stop s) = s"
  by (simp add: stop_def Let_def assign_status_ignored)

lemma fresh_simps:
  "exited fresh = False"
  "sync_once_listeners fresh = 0"
  "prepared_listeners fresh = 0"
  "timeline_listeners fresh = 0"
  "membership_listeners fresh = 0"
  "settings fresh = default_settings"
  "client fresh = quiet_client"
  "get_status fresh = lit ''READY''"
  by (simp_all add: fresh_def Matrix_def get_status_def)

lemma start_fresh_ok: "snd (start fresh) = Inr ()"
  by (simp add: start_def Let_def fresh_def Matrix_def default_settings_def quiet_client_def
      assign_status_ignored emit_def request_def)

lemma started_simps:
  "exited started = False"
  "settings started = default_settings"
  "client started = quiet_client"
  "get_status started = lit ''READY''"
  "sync_once_listeners started = 1"
  "prepared_listeners started = 1"
  "membership_listeners started = 1"
  "timeline_listeners started = 0"
  using fresh_simps(8)
  by (simp_all add: started_def start_frame fresh_simps start_membership_listeners
      start_fresh_ok get_status_def)

lemma deliver_sync_once:
  "sync_once_listeners s = 1 \<Longrightarrow> \<not> exited s \<Longrightarrow>
   deliver_sync now st s = handleClientSync now st (s\<lparr>sync_once_listeners := 0\<rparr>)"
  by (simp add: deliver_sync_def)

lemma deliver_timeline_once:
  "timeline_listeners s = 1 \<Longrightarrow> \<not> exited s \<Longrightarrow>
   deliver_timeline ev rm b s = handleRoomTimeline ev rm b s"
  by (simp add: deliver_timeline_def)

lemma deliver_membership_once:
  "membership_listeners s = 1 \<Longrightarrow> \<not> exited s \<Longrightarrow>
   deliver_membership m s = handleMembership m s"
  by (simp add: deliver_membership_def)

text \<open>
  C1. The claim is that the status reads \<^verbatim>\<open>'STARTED'\<close> after \<^verbatim>\<open>start\<close> and
  \<^verbatim>\<open>'STOPPED'\<close> after \<^verbatim>\<open>stop\<close>. The code does not do that: the setter stores only
  \<^verbatim>\<open>'READY'\<close>, so the four assignments of \<^verbatim>\<open>start\<close> and \<^verbatim>\<open>stop\<close> store
  nothing. On a new adapter, whatever its settings and whatever the client answers,
  the status still reads \<^verbatim>\<open>'READY'\<close> after \<^verbatim>\<open>start\<close>, and again after a \<^verbatim>\<open>stop\<close>
  that follows it. With the default settings and a client that accepts every request,
  \<^verbatim>\<open>start\<close> does complete, and \<^verbatim>\<open>stop\<close> always does.
\<close>

theorem status_stays_READY:
  "get_status (fst (start (Matrix st cl))) = lit ''READY''
   \<and> get_status (fst (start (Matrix st cl))) \<noteq> lit ''STARTED''
   \<and> get_status (fst (stop (fst (start (Matrix st cl))))) = lit ''READY''
   \<and> get_status (fst (stop (fst (start (Matrix st cl))))) \<noteq> lit ''STOPPED''
   \<and> snd (start (Matrix default_settings quiet_client)) = Inr ()
   \<and> snd (stop (fst (start (Matrix st cl)))) = Inr ()"
proof -
  have init: "get_status (Matrix st cl) = lit ''READY''"
    by (simp add: Matrix_def get_status_def)
  have a: "get_status (fst (start (Matrix st cl))) = lit ''READY''"
    using init by (simp add: get_status_def start_frame)
  have b: "get_status (fst (stop (fst (start (Matrix st cl))))) = lit ''READY''"
    using a by (simp add: stop_ignored)
  have c: "lit ''READY'' \<noteq> lit ''STARTED''" "lit ''READY'' \<noteq> lit ''STOPPED''"
    by (simp_all add: lit_def)
  have d: "snd (start (Matrix default_settings quiet_client)) = Inr ()"
    using start_fresh_ok by (simp add: fresh_def)
  have e: "snd (stop (fst (start (Matrix st cl)))) = Inr ()"
    by (simp add: stop_def Let_def)
  from a b c d e show ?thesis by simp
qed

section \<open>The sync callback\<close>




lemma trim_samples:
  "trim (lit ''PREPARED'') = lit ''PREPARED''"
  "trim (lit '' PREPARED '') = lit ''PREPARED''"
  "trim (lit ''ERROR'') \<noteq> lit ''PREPARED''"
  by (simp_all add: lit_def trim_def is_white_space_def)




lemma ready_simps:
  "exited ready = False"
  "settings ready = default_settings"
  "timeline_listeners ready = 1"
  "membership_listeners ready = 1"
  by (simp_all add: ready_def deliver_sync_once started_simps handleClientSync_def trim_samples
      Let_def emit_prepared_def emit_def handlePreparedEvent_def syncState_def publishState_def)

lemma ready_status: "get_status ready = lit ''READY''"
  using started_simps(4)
  by (simp add: ready_def deliver_sync_once started_simps handleClientSync_def trim_samples
      Let_def emit_prepared_def emit_def handlePreparedEvent_def syncState_def publishState_def
      get_status_def)


section \<open>The actor registry\<close>

lemma ensureUser_fst: "fst (ensureUser uid s) = Actor (IdContent uid)"
  by (simp add: ensureUser_def Let_def)

lemma ensureUser_trace: "trace (snd (ensureUser uid s)) = trace s"
  by (simp add: ensureUser_def Let_def)

lemma ensureUser_actors:
  "actors (state (snd (ensureUser uid s)))
     = (actors (state s))(Digest (IdContent uid) \<mapsto> ActorData (IdContent uid))"
  by (simp add: ensureUser_def Let_def)

lemma ensureUser_users:
  "users (state (snd (ensureUser uid s))) = (users (state s))(uid \<mapsto> Digest (IdContent uid))"
  by (simp add: ensureUser_def Let_def)

text \<open>
  C3. The actor id that \<^verbatim>\<open>_ensureUser\<close> returns is a function of the external user
  id alone: two different user ids never get the same actor id, whatever the states
  of the two calls, and the same user id gets the same actor id in any state, in
  particular when the call is repeated. Each call stores the actor's data under that
  id, replacing what was there, and maps the user id to the actor id. The id is that
  of the \<open>Actor\<close> model above, a symbolic digest of the content \<^verbatim>\<open>{ id: U }\<close>.
\<close>

theorem ensureUser_id_injective_stable:
  "(U1 \<noteq> U2 \<longrightarrow> actor_id (fst (ensureUser U1 s)) \<noteq> actor_id (fst (ensureUser U2 s')))
   \<and> actor_id (fst (ensureUser U s')) = actor_id (fst (ensureUser U s))
   \<and> actor_id (fst (ensureUser U (snd (ensureUser U s)))) = actor_id (fst (ensureUser U s))
   \<and> actors (state (snd (ensureUser U s))) (actor_id (fst (ensureUser U s)))
       = Some (ActorData (actor_data (fst (ensureUser U s))))
   \<and> users (state (snd (ensureUser U s))) U = Some (actor_id (fst (ensureUser U s)))"
  by (simp add: ensureUser_fst ensureUser_actors ensureUser_users)

theorem ensureUser_id_injective_stable_witness:
  "lit ''@alice:fabric.pub'' \<noteq> lit ''@bob:fabric.pub''
   \<and> actor_id (fst (ensureUser (lit ''@alice:fabric.pub'') fresh))
       \<noteq> actor_id (fst (ensureUser (lit ''@bob:fabric.pub'') busy))
   \<and> actor_id (fst (ensureUser (lit ''@alice:fabric.pub'')
                      (snd (ensureUser (lit ''@alice:fabric.pub'') fresh))))
       = actor_id (fst (ensureUser (lit ''@alice:fabric.pub'') fresh))"
proof -
  have ne: "lit ''@alice:fabric.pub'' \<noteq> lit ''@bob:fabric.pub''"
    by (simp add: lit_def)
  from ensureUser_id_injective_stable
         [of "lit ''@alice:fabric.pub''" "lit ''@bob:fabric.pub''" fresh busy
             "lit ''@alice:fabric.pub''"] ne
  show ?thesis by simp
qed

section \<open>Relaying timeline events\<close>

lemma handleRoomTimeline_message:
  "getType ev = lit ''m.room.message'' \<Longrightarrow>
   trace (handleRoomTimeline ev rm b s)
     = trace s @ [Emit EvActivity (ActivityPayload \<lparr>
           actor = actor_id (fst (ensureUser (sender ev) s)),
           object = \<lparr> object_id = Some (event_id ev), content = body ev \<rparr>,
           target = lit ''/rooms/'' @ roomId rm \<rparr>) (state (snd (ensureUser (sender ev) s)))]"
  by (simp add: handleRoomTimeline_def Let_def split_beta syncState_def publishState_def
      trace_emit ensureUser_trace)

lemma handleRoomTimeline_other:
  "getType ev \<noteq> lit ''m.room.message'' \<Longrightarrow>
   trace (handleRoomTimeline ev rm b s)
     = trace s @ [Emit EvWarning (Text (lit ''Unhandled Matrix message type: '' @ getType ev))
                    (state (snd (ensureUser (sender ev) s)))]"
  by (simp add: handleRoomTimeline_def Let_def split_beta trace_emit ensureUser_trace)

lemma handleMatrixMessage_message:
  "getType msg = lit ''m.room.message'' \<Longrightarrow>
   trace (handleMatrixMessage msg s)
     = trace s @ [Emit EvActivity (ActivityPayload \<lparr>
           actor = actor_id (fst (ensureUser (sender msg) s)),
           object = \<lparr> object_id = None, content = body msg \<rparr>,
           target = lit ''/rooms/'' @ room_id msg \<rparr>) (state (snd (ensureUser (sender msg) s)))]"
  by (simp add: handleMatrixMessage_def Let_def split_beta trace_emit ensureUser_trace)

lemma handleMatrixMessage_other:
  "getType msg \<noteq> lit ''m.room.message'' \<Longrightarrow>
   trace (handleMatrixMessage msg s)
     = trace s @ [Emit EvWarning (Text (lit ''Unhandled Matrix message type: '' @ getType msg))
                    (state (snd (ensureUser (sender msg) s)))]"
  by (simp add: handleMatrixMessage_def Let_def split_beta trace_emit ensureUser_trace)

text \<open>
  C4. A timeline event of type \<^verbatim>\<open>m.room.message\<close> with sender \<open>U1\<close> and body
  \<open>hello\<close>, delivered with room \<open>rm\<close>, adds exactly one emission to the trace: an
  \<^verbatim>\<open>activity\<close> whose actor is the id that \<^verbatim>\<open>_ensureUser\<close> gives \<open>U1\<close>, whose
  object content is \<open>hello\<close> and whose target is \<^verbatim>\<open>/rooms/\<close> followed by the room
  id, so that it contains the room id. An event of any other type adds exactly one
  emission as well: a \<^verbatim>\<open>warning\<close> that names the type. Nothing else is emitted in
  either case, so there is no \<^verbatim>\<open>error\<close> and no silence.
\<close>

theorem room_timeline_relay:
  "(getType ev = lit ''m.room.message'' \<and> sender ev = U1 \<and> body ev = Some hello \<longrightarrow>
      (\<exists>a st. trace (handleRoomTimeline ev rm b s) = trace s @ [Emit EvActivity (ActivityPayload a) st]
         \<and> actor a = actor_id (fst (ensureUser U1 s))
         \<and> content (object a) = Some hello
         \<and> target a = lit ''/rooms/'' @ roomId rm
         \<and> sublist (roomId rm) (target a)))
   \<and> (getType ev \<noteq> lit ''m.room.message'' \<longrightarrow>
      (\<exists>st. trace (handleRoomTimeline ev rm b s)
         = trace s @ [Emit EvWarning
                        (Text (lit ''Unhandled Matrix message type: '' @ getType ev)) st]))"
  by (auto simp add: handleRoomTimeline_message handleRoomTimeline_other)

theorem room_timeline_relay_witness:
  "getType hello_event = lit ''m.room.message''
   \<and> sender hello_event = lit ''@alice:fabric.pub''
   \<and> body hello_event = Some (lit ''hello'')
   \<and> (\<exists>a st. trace (deliver_timeline hello_event lobby False ready)
                 = trace ready @ [Emit EvActivity (ActivityPayload a) st]
         \<and> actor a = actor_id (fst (ensureUser (lit ''@alice:fabric.pub'') ready))
         \<and> content (object a) = Some (lit ''hello'')
         \<and> target a = lit ''/rooms/'' @ lit ''!lobby:fabric.pub'')
   \<and> getType reaction_event \<noteq> lit ''m.room.message''
   \<and> (\<exists>st. trace (deliver_timeline reaction_event lobby False ready)
         = trace ready @ [Emit EvWarning
                            (Text (lit ''Unhandled Matrix message type: '' @ lit ''m.reaction'')) st])"
proof -
  have h: "getType hello_event = lit ''m.room.message''"
    "sender hello_event = lit ''@alice:fabric.pub''"
    "body hello_event = Some (lit ''hello'')"
    by (simp_all add: hello_event_def getType_def)
  have r: "getType reaction_event = lit ''m.reaction''"
    by (simp add: reaction_event_def getType_def)
  have ne: "lit ''m.reaction'' \<noteq> lit ''m.room.message''"
    by (simp add: lit_def)
  have l: "roomId lobby = lit ''!lobby:fabric.pub''"
    by (simp add: lobby_def)
  have d: "deliver_timeline ev lobby False ready = handleRoomTimeline ev lobby False ready" for ev
    by (rule deliver_timeline_once) (simp_all add: ready_simps)
  from room_timeline_relay
         [of hello_event "lit ''@alice:fabric.pub''" "lit ''hello''" lobby False ready]
       room_timeline_relay
         [of reaction_event "lit ''@alice:fabric.pub''" "lit ''hello''" lobby False ready]
       h r ne l d
  show ?thesis by auto
qed

text \<open>
  C8. Ensure before use: whenever \<^verbatim>\<open>_handleRoomTimeline\<close> or \<^verbatim>\<open>_handleMatrixMessage\<close>
  emits an \<^verbatim>\<open>activity\<close>, its actor is the id derived from the sender of the event,
  and the state at the moment of the emission has an entry for that actor id in
  \<open>actors\<close> and maps the sender to it in \<open>users\<close>.
\<close>

theorem ensure_before_use:
  "trace (handleRoomTimeline ev rm b s) = trace s @ es
     \<or> trace (handleMatrixMessage ev s) = trace s @ es \<Longrightarrow>
   Emit EvActivity (ActivityPayload a) st \<in> set es \<Longrightarrow>
   actor a = actor_id (fst (ensureUser (sender ev) s))
   \<and> actors st (actor a) \<noteq> None
   \<and> users st (sender ev) = Some (actor a)"
proof -
  assume tr: "trace (handleRoomTimeline ev rm b s) = trace s @ es
     \<or> trace (handleMatrixMessage ev s) = trace s @ es"
  assume mem: "Emit EvActivity (ActivityPayload a) st \<in> set es"
  show ?thesis
  proof (cases "getType ev = lit ''m.room.message''")
    case True
    from tr mem True show ?thesis
      by (auto simp add: handleRoomTimeline_message handleMatrixMessage_message
          ensureUser_fst ensureUser_actors ensureUser_users)
  next
    case False
    from tr mem False show ?thesis
      by (auto simp add: handleRoomTimeline_other handleMatrixMessage_other)
  qed
qed

theorem ensure_before_use_witness:
  "trace (handleRoomTimeline hello_event lobby False ready)
     = trace ready @ [Emit EvActivity (ActivityPayload \<lparr>
           actor = Digest (IdContent (lit ''@alice:fabric.pub'')),
           object = \<lparr> object_id = Some (lit ''$e1''), content = Some (lit ''hello'') \<rparr>,
           target = lit ''/rooms/'' @ lit ''!lobby:fabric.pub'' \<rparr>)
         (state (snd (ensureUser (lit ''@alice:fabric.pub'') ready)))]
   \<and> actors (state (snd (ensureUser (lit ''@alice:fabric.pub'') ready)))
        (Digest (IdContent (lit ''@alice:fabric.pub''))) \<noteq> None
   \<and> users (state (snd (ensureUser (lit ''@alice:fabric.pub'') ready)))
        (lit ''@alice:fabric.pub'') = Some (Digest (IdContent (lit ''@alice:fabric.pub'')))"
proof -
  let ?a = "\<lparr> actor = Digest (IdContent (lit ''@alice:fabric.pub'')),
           object = \<lparr> object_id = Some (lit ''$e1''), content = Some (lit ''hello'') \<rparr>,
           target = lit ''/rooms/'' @ lit ''!lobby:fabric.pub'' \<rparr>"
  let ?st = "state (snd (ensureUser (lit ''@alice:fabric.pub'') ready))"
  have h: "getType hello_event = lit ''m.room.message''"
    by (simp add: hello_event_def getType_def)
  have t: "trace (handleRoomTimeline hello_event lobby False ready)
     = trace ready @ [Emit EvActivity (ActivityPayload ?a) ?st]"
    by (simp add: handleRoomTimeline_message [OF h] ensureUser_fst)
       (simp add: hello_event_def lobby_def)
  have s: "sender hello_event = lit ''@alice:fabric.pub''"
    by (simp add: hello_event_def)
  from ensure_before_use
         [of hello_event lobby False ready "[Emit EvActivity (ActivityPayload ?a) ?st]" ?a ?st]
       t s
  show ?thesis by (simp add: ensureUser_fst)
qed

text \<open>
  Nothing takes an entry away again. A handler that has awaited \<^verbatim>\<open>_syncState\<close> may
  find that other handlers have ensured their own users in between; the entries it
  relies on are still there.
\<close>

lemma ensureUser_keeps_actors:
  "actors (state s) k \<noteq> None \<Longrightarrow> actors (state (snd (ensureUser u s))) k \<noteq> None"
  by (simp add: ensureUser_actors)

lemma ensureUser_keeps_users:
  "users (state s) U = Some (Digest (IdContent U)) \<Longrightarrow>
   users (state (snd (ensureUser u s))) U = Some (Digest (IdContent U))"
  by (simp add: ensureUser_users)

section \<open>Invitations\<close>

text \<open>
  C9. For a membership event whose membership is \<^verbatim>\<open>invite\<close>: when the member is the
  adapter's own handle and \<open>autojoin\<close> is set, the listener issues exactly one request,
  a join of the room of that event; when the member is the adapter's own handle and
  \<open>autojoin\<close> is not set, it does nothing; when the member is anyone else, it does
  nothing.
\<close>

theorem invite_autojoin:
  "membership m = lit ''invite'' \<Longrightarrow>
   (userId m = handle (settings s) \<and> autojoin (settings s) \<longrightarrow>
      trace (handleMembership m s) = trace s @ [Request (JoinRoom (member_roomId m))])
   \<and> (userId m = handle (settings s) \<and> \<not> autojoin (settings s) \<longrightarrow>
      handleMembership m s = s)
   \<and> (userId m \<noteq> handle (settings s) \<longrightarrow> handleMembership m s = s)"
  by (simp add: handleMembership_def trace_request)

theorem invite_autojoin_witness:
  "membership invite = lit ''invite''
   \<and> userId invite = handle (settings ready) \<and> autojoin (settings ready)
   \<and> trace (deliver_membership invite ready)
       = trace ready @ [Request (JoinRoom (lit ''!lounge:fabric.pub''))]
   \<and> userId invite = handle (settings manual) \<and> \<not> autojoin (settings manual)
   \<and> handleMembership invite manual = manual
   \<and> userId (invite\<lparr>userId := lit ''@bob:fabric.pub''\<rparr>) \<noteq> handle (settings ready)
   \<and> deliver_membership (invite\<lparr>userId := lit ''@bob:fabric.pub''\<rparr>) ready = ready"
proof -
  have i: "membership invite = lit ''invite''"
    "membership (invite\<lparr>userId := lit ''@bob:fabric.pub''\<rparr>) = lit ''invite''"
    "member_roomId invite = lit ''!lounge:fabric.pub''"
    by (simp_all add: invite_def)
  have u: "userId invite = handle (settings ready)" "autojoin (settings ready)"
    "userId invite = handle (settings manual)" "\<not> autojoin (settings manual)"
    by (simp_all add: ready_simps invite_def default_settings_def manual_def Matrix_def)
  have b: "userId (invite\<lparr>userId := lit ''@bob:fabric.pub''\<rparr>) \<noteq> handle (settings ready)"
    by (simp add: ready_simps default_settings_def lit_def)
  have d: "deliver_membership m ready = handleMembership m ready" for m
    by (rule deliver_membership_once) (simp_all add: ready_simps)
  from invite_autojoin [OF i(1), of ready]
       invite_autojoin [OF i(1), of manual]
       invite_autojoin [OF i(2), of ready]
       i u b d
  show ?thesis by simp
qed

section \<open>Finding an event\<close>

lemma find_append:
  "find P (xs @ ys) = (case find P xs of Some x \<Rightarrow> Some x | None \<Rightarrow> find P ys)"
  by (induction xs) auto

lemma find_SomeD: "find P xs = Some x \<Longrightarrow> P x \<and> x \<in> set xs"
  by (induction xs) (auto split: if_splits)

lemma scan_timeline_find:
  "n \<le> length tml \<Longrightarrow>
   scan_timeline tml n eventID = find (\<lambda>e. getId e = eventID) (rev (take n tml))"
proof (induction n)
  case 0
  then show ?case by simp
next
  case (Suc n)
  then have "take (Suc n) tml = take n tml @ [tml ! n]"
    by (simp add: take_Suc_conv_app_nth)
  with Suc show ?case by simp
qed

lemma scan_rooms_find:
  "n \<le> length rooms \<Longrightarrow>
   scan_rooms rooms n eventID
     = find (\<lambda>e. getId e = eventID) (rev (concat (map timeline (take n rooms))))"
proof (induction n)
  case 0
  then show ?case by simp
next
  case (Suc n)
  then have "take (Suc n) rooms = take n rooms @ [rooms ! n]"
    by (simp add: take_Suc_conv_app_nth)
  moreover from Suc have "scan_rooms rooms n eventID
     = find (\<lambda>e. getId e = eventID) (rev (concat (map timeline (take n rooms))))"
    by simp
  ultimately show ?case
    by (simp add: scan_timeline_find find_append split: option.splits)
qed

lemma getEvent_find:
  "getEvent s eventID
     = find (\<lambda>e. getId e = eventID) (rev (concat (map timeline (getRooms (client s)))))"
  by (simp add: getEvent_def scan_rooms_find)

lemma busy_rooms: "getRooms (client busy) = [lobby, lounge]"
  by (simp add: busy_def Matrix_def busy_client_def)

lemma sample_ids:
  "getId hello_event = lit ''$e1''"
  "getId reaction_event = lit ''$e2''"
  "getId echo_event = lit ''$e1''"
  "lit ''$e1'' \<noteq> lit ''$e9''"
  "lit ''$e2'' \<noteq> lit ''$e9''"
  by (simp_all add: getId_def hello_event_def reaction_event_def echo_event_def lit_def)

text \<open>
  C5. \<^verbatim>\<open>_getEvent\<close> returns the first event with the given id met when the rooms are
  gone through from the last to the first and each timeline from its last event to
  its first. So when some timeline holds an event with that id, it returns such an
  event, and otherwise it returns \<^verbatim>\<open>null\<close>. In that last case \<^verbatim>\<open>_react\<close> and
  \<^verbatim>\<open>_redact\<close> fail with the \<^verbatim>\<open>TypeError\<close> of reading a property of \<^verbatim>\<open>null\<close>, and
  the adapter is as it was: no request has been made.
\<close>

theorem getEvent_react_redact:
  "getEvent s eventID
     = find (\<lambda>e. getId e = eventID) (rev (concat (map timeline (getRooms (client s)))))
   \<and> ((\<exists>r \<in> set (getRooms (client s)). \<exists>e \<in> set (timeline r). getId e = eventID) \<longrightarrow>
        (\<exists>e. getEvent s eventID = Some e \<and> getId e = eventID
           \<and> (\<exists>r \<in> set (getRooms (client s)). e \<in> set (timeline r))))
   \<and> (\<not> (\<exists>r \<in> set (getRooms (client s)). \<exists>e \<in> set (timeline r). getId e = eventID) \<longrightarrow>
        getEvent s eventID = None
        \<and> react eventID emoji s = (s, Inl null_dereference)
        \<and> redact eventID s = (s, Inl null_dereference))"
proof (cases "getEvent s eventID")
  case None
  then have "\<not> (\<exists>r \<in> set (getRooms (client s)). \<exists>e \<in> set (timeline r). getId e = eventID)"
    by (auto simp add: getEvent_find find_None_iff)
  with None show ?thesis
    by (simp add: getEvent_find [symmetric] react_def redact_def)
next
  case (Some e)
  then have "getId e = eventID" "\<exists>r \<in> set (getRooms (client s)). e \<in> set (timeline r)"
    by (auto simp add: getEvent_find dest: find_SomeD)
  with Some show ?thesis
    by (auto simp add: getEvent_find [symmetric])
qed

theorem getEvent_react_redact_witness:
  "(\<exists>r \<in> set (getRooms (client busy)). \<exists>e \<in> set (timeline r). getId e = lit ''$e1'')
   \<and> getEvent busy (lit ''$e1'') = Some echo_event
   \<and> \<not> (\<exists>r \<in> set (getRooms (client busy)). \<exists>e \<in> set (timeline r). getId e = lit ''$e9'')
   \<and> getEvent busy (lit ''$e9'') = None
   \<and> react (lit ''$e9'') (lit ''+1'') busy = (busy, Inl null_dereference)
   \<and> redact (lit ''$e9'') busy = (busy, Inl null_dereference)"
proof -
  have a: "\<exists>r \<in> set (getRooms (client busy)). \<exists>e \<in> set (timeline r). getId e = lit ''$e1''"
    by (simp add: busy_rooms lobby_def lounge_def sample_ids)
  have b: "\<not> (\<exists>r \<in> set (getRooms (client busy)). \<exists>e \<in> set (timeline r). getId e = lit ''$e9'')"
    by (simp add: busy_rooms lobby_def lounge_def sample_ids)
  have c: "find (\<lambda>e. getId e = lit ''$e1'')
             (rev (concat (map timeline (getRooms (client busy))))) = Some echo_event"
    by (simp add: busy_rooms lobby_def lounge_def sample_ids)
  note found = getEvent_react_redact [of busy "lit ''$e1''" "lit ''+1''"]
  note missing = getEvent_react_redact [of busy "lit ''$e9''" "lit ''+1''"]
  have g: "getEvent busy (lit ''$e1'') = Some echo_event"
    using found c by simp
  have n: "getEvent busy (lit ''$e9'') = None
     \<and> react (lit ''$e9'') (lit ''+1'') busy = (busy, Inl null_dereference)
     \<and> redact (lit ''$e9'') busy = (busy, Inl null_dereference)"
    using missing b by blast
  from a b g n show ?thesis by blast
qed

section \<open>Registration\<close>

lemma register_missing:
  "falsy username \<Longrightarrow> register username pw s = (s, Inl (Error (lit ''Must provide username.'')))"
  "\<not> falsy username \<Longrightarrow> falsy pw \<Longrightarrow>
     register username pw s = (s, Inl (Error (lit ''Must provide password.'')))"
  by (simp_all add: register_def)

lemma register_present:
  "\<not> falsy username \<Longrightarrow> \<not> falsy pw \<Longrightarrow>
   register username pw s =
     (let s2 = s\<lparr>trace := trace s @
                  [Emit EvLog (Text (lit ''Trying registration: '' @ str username @ lit '':'' @ str pw))
                     (state s),
                   Request (RegisterRequest (str username) (str pw))]\<rparr>
      in case registerRequest (client s) (str username) (str pw) of
           Inl e \<Rightarrow> (s2\<lparr>trace := trace s2 @ [ConsoleError (lit ''no reg:'') e]\<rparr>, Inr None)
         | Inr result \<Rightarrow> (s2, Inr (Some result)))"
  by (simp add: register_def Let_def emit_def request_def split: sum.splits)

lemma register_call_simps:
  "fst (register_call username pw s) = fst (register username pw s)"
  "snd (register_call username pw s) = async_call (snd (register username pw s))"
  by (simp_all add: register_call_def)

text \<open>
  C6, as the code has it. When the username or the password is missing or empty,
  \<^verbatim>\<open>register\<close> fails with a validation \<^verbatim>\<open>Error\<close>, which its caller gets as the
  rejection of the promise the call returns, and the adapter is as it was: nothing
  emitted, no request made. When both are present and the client's registration
  request fails, the promise is fulfilled with \<^verbatim>\<open>null\<close>; what \<^verbatim>\<open>register\<close> has
  done is to emit its log line, make the request and write the exception to the
  console.
\<close>

theorem register_validates_and_swallows:
  "(falsy username \<longrightarrow>
      register_call username pw s
        = (s, Returned (Rejected (Error (lit ''Must provide username.'')))))
   \<and> (\<not> falsy username \<and> falsy pw \<longrightarrow>
      register_call username pw s
        = (s, Returned (Rejected (Error (lit ''Must provide password.'')))))
   \<and> (\<not> falsy username \<and> \<not> falsy pw
        \<and> registerRequest (client s) (str username) (str pw) = Inl e \<longrightarrow>
      snd (register_call username pw s) = Returned (Fulfilled None)
      \<and> trace (fst (register_call username pw s))
          = trace s @
              [Emit EvLog
                 (Text (lit ''Trying registration: '' @ str username @ lit '':'' @ str pw))
                 (state s),
               Request (RegisterRequest (str username) (str pw)),
               ConsoleError (lit ''no reg:'') e])"
  by (simp add: register_call_def async_call_def register_missing register_present Let_def)

theorem register_validates_and_swallows_witness:
  "falsy None \<and> falsy (Some [])
   \<and> register_call None (Some (lit ''hunter2'')) fresh
       = (fresh, Returned (Rejected (Error (lit ''Must provide username.''))))
   \<and> register_call (Some (lit ''alice'')) (Some []) fresh
       = (fresh, Returned (Rejected (Error (lit ''Must provide password.''))))
   \<and> \<not> falsy (Some (lit ''alice'')) \<and> \<not> falsy (Some (lit ''hunter2''))
   \<and> registerRequest (client stubborn) (str (Some (lit ''alice''))) (str (Some (lit ''hunter2'')))
       = Inl (Error (lit ''M_USER_IN_USE''))
   \<and> snd (register_call (Some (lit ''alice'')) (Some (lit ''hunter2'')) stubborn)
       = Returned (Fulfilled None)"
proof -
  have f: "falsy (Some [])" "falsy None"
    "\<not> falsy (Some (lit ''alice''))" "\<not> falsy (Some (lit ''hunter2''))"
    by (simp_all add: falsy_def lit_def)
  have r: "registerRequest (client stubborn) (str (Some (lit ''alice''))) (str (Some (lit ''hunter2'')))
       = Inl (Error (lit ''M_USER_IN_USE''))"
    by (simp add: stubborn_def Matrix_def refusing_client_def)
  from register_validates_and_swallows [of None "Some (lit ''hunter2'')" fresh]
       register_validates_and_swallows [of "Some (lit ''alice'')" "Some []" fresh]
       register_validates_and_swallows
         [of "Some (lit ''alice'')" "Some (lit ''hunter2'')" stubborn "Error (lit ''M_USER_IN_USE'')"]
       f r
  show ?thesis by simp
qed

text \<open>
  C6, as the claim states it, fails: the claim has \<^verbatim>\<open>register\<close> fail synchronously.
  Called with an empty password, \<^verbatim>\<open>register\<close> does not throw: the call returns a
  promise, and the promise is rejected with the validation \<^verbatim>\<open>Error\<close>.
\<close>

theorem register_synchronous_counterexample:
  "falsy (Some [])
   \<and> register_call (Some (lit ''alice'')) (Some []) fresh
       = (fresh, Returned (Rejected (Error (lit ''Must provide password.''))))
   \<and> \<not> throws (snd (register_call (Some (lit ''alice'')) (Some []) fresh))"
proof -
  have f: "falsy (Some [])" "\<not> falsy (Some (lit ''alice''))"
    by (simp_all add: falsy_def lit_def)
  then have "register_call (Some (lit ''alice'')) (Some []) fresh
       = (fresh, Returned (Rejected (Error (lit ''Must provide password.''))))"
    by (simp add: register_call_def async_call_def register_missing)
  with f show ?thesis by (simp add: throws_def)
qed

text \<open>
  C7. For an object without a \<open>pubkey\<close>, \<^verbatim>\<open>_registerActor\<close> fails with the
  \<^verbatim>\<open>Error\<close> that the field is required, and the adapter is as it was: no request
  made, nothing emitted, \<open>actors\<close> unchanged.
\<close>

theorem registerActor_requires_pubkey:
  "pubkey obj = None \<Longrightarrow> registerActor hashpass obj s = (s, Inl (Error field_pubkey_required))"
  by (simp add: registerActor_def falsy_def)

theorem registerActor_requires_pubkey_witness:
  "pubkey nameless = None
   \<and> registerActor (lit ''5e884898da28'') nameless fresh
       = (fresh, Inl (Error field_pubkey_required))"
proof -
  have p: "pubkey nameless = None"
    by (simp add: nameless_def)
  from registerActor_requires_pubkey [OF p, of "lit ''5e884898da28''" fresh] p
  show ?thesis by simp
qed

text \<open>
  With a \<open>pubkey\<close>, by contrast, \<^verbatim>\<open>_registerActor\<close> stores the copy of the object
  under the actor's id and returns the actor's data, whatever the connection flow
  meets on its way.
\<close>

lemma state_request: "state (request r s) = state s"
  by (simp add: request_def)

lemma state_register: "state (fst (register u p s)) = state s"
  by (simp add: register_def Let_def emit_def request_def split: sum.splits)

lemma state_try_availability: "state (fst (try_availability u s)) = state s"
  by (simp add: try_availability_def checkUsernameAvailable_def Let_def emit_def request_def)

lemma state_try_registration: "state (try_registration u p s) = state s"
  using state_register [of "Some u" "Some p" "emit EvLog (Text (lit ''Trying registration: '' @ u)) s"]
  by (auto simp add: try_registration_def Let_def state_emit split: prod.splits sum.splits)

lemma state_try_login: "state (try_login u p s) = state s"
  by (simp add: try_login_def adapter_login_def Let_def state_emit state_request
      split: sum.splits)

lemma state_try_join: "state (try_join s) = state s"
  by (simp add: try_join_def Let_def state_emit state_request split: sum.splits)

lemma registerActor_stores:
  "\<not> falsy (pubkey obj) \<Longrightarrow>
   state (fst (registerActor hashpass obj s))
     = (state s)\<lparr>actors := (actors (state s))
          (Digest (PubkeyContent (str (pubkey obj)))
             \<mapsto> Memory (if falsy (password obj) then obj else obj\<lparr>password := None\<rparr>))\<rparr>
   \<and> snd (registerActor hashpass obj s) = Inr (PubkeyContent (str (pubkey obj)))"
  by (simp add: registerActor_def Let_def split_beta state_emit state_try_join state_try_login
      state_try_registration state_try_availability)

lemma log_payloads_append: "log_payloads (xs @ ys) = log_payloads xs @ log_payloads ys"
  by (induction xs rule: log_payloads.induct) simp_all

lemma str_inject: "\<not> falsy v \<Longrightarrow> \<not> falsy w \<Longrightarrow> str v = str w \<longleftrightarrow> v = w"
  by (auto simp add: falsy_def str_def split: option.splits)

lemma register_log_payloads:
  "\<not> falsy username \<Longrightarrow> \<not> falsy pw \<Longrightarrow>
   log_payloads (trace (fst (register username pw s)))
     = log_payloads (trace s)
         @ [Text (lit ''Trying registration: '' @ str username @ lit '':'' @ str pw)]"
  by (simp add: register_present Let_def log_payloads_append split: sum.splits)

text \<open>
  C10. When both arguments are present, the first thing \<^verbatim>\<open>register\<close> does is to emit
  a \<^verbatim>\<open>log\<close> event whose text ends with the password, and the registration request
  comes right after it. So the \<^verbatim>\<open>log\<close> events depend on the password: from the same
  adapter and with the same username, two different passwords give different \<^verbatim>\<open>log\<close>
  events.
\<close>

theorem register_logs_password:
  "\<not> falsy username \<Longrightarrow> \<not> falsy pw \<Longrightarrow>
   (\<exists>t rest. trace (fst (register username pw s))
        = trace s @ Emit EvLog (Text t) (state s)
            # Request (RegisterRequest (str username) (str pw)) # rest
      \<and> suffix (str pw) t)
   \<and> (\<forall>pw'. \<not> falsy pw' \<and> pw' \<noteq> pw \<longrightarrow>
        log_payloads (trace (fst (register username pw' s)))
          \<noteq> log_payloads (trace (fst (register username pw s))))"
proof -
  assume u: "\<not> falsy username" and p: "\<not> falsy pw"
  have a: "\<exists>t rest. trace (fst (register username pw s))
        = trace s @ Emit EvLog (Text t) (state s)
            # Request (RegisterRequest (str username) (str pw)) # rest
      \<and> suffix (str pw) t"
    using u p
    by (auto simp add: register_present Let_def suffix_def split: sum.splits)
  have b: "log_payloads (trace (fst (register username pw' s)))
          \<noteq> log_payloads (trace (fst (register username pw s)))"
    if "\<not> falsy pw'" "pw' \<noteq> pw" for pw'
    using that u p by (simp add: register_log_payloads str_inject)
  from a b show ?thesis by blast
qed

theorem register_logs_password_witness:
  "\<not> falsy (Some (lit ''alice'')) \<and> \<not> falsy (Some (lit ''hunter2''))
   \<and> \<not> falsy (Some (lit ''hunter3'')) \<and> Some (lit ''hunter3'') \<noteq> Some (lit ''hunter2'')
   \<and> log_payloads (trace (fst (register (Some (lit ''alice'')) (Some (lit ''hunter3'')) fresh)))
       \<noteq> log_payloads (trace (fst (register (Some (lit ''alice'')) (Some (lit ''hunter2'')) fresh)))"
proof -
  have f: "\<not> falsy (Some (lit ''alice''))" "\<not> falsy (Some (lit ''hunter2''))"
    "\<not> falsy (Some (lit ''hunter3''))" "Some (lit ''hunter3'') \<noteq> Some (lit ''hunter2'')"
    by (simp_all add: falsy_def lit_def)
  from register_logs_password [OF f(1) f(2), of fresh] f
  show ?thesis by blast
qed

end
